theory Spec2Isabelle
  imports Main "HOL-Library.AList"
begin

section \<open>Values, exceptions and requests\<close>

text \<open>
  The three modules under verification are \<^verbatim>\<open>sqlitemultithread.py\<close> (the worker that owns the
  one connection), \<^verbatim>\<open>sqlitedb.py\<close> (construction, close, terminate) and \<^verbatim>\<open>sqlitedict.py\<close>
  (the mapping methods). Values bound to a statement and values of a result row are SQLite
  values.
\<close>

datatype sqlval = SqlNull | SqlInt int | SqlText string | SqlBlob string

type_synonym row = "sqlval list"

text \<open>
  The exceptions the three modules raise or let through. \<open>KeyError\<close> is raised with the key as
  its argument; the argument is left out here. \<open>OperationalError\<close> and \<open>ProgrammingError\<close> are
  the engine's (sqlite3) own; \<open>OSError\<close> also stands for its alias \<open>IOError\<close> and its subclasses.
\<close>

datatype exn =
    NameError string
  | AssertionError
  | OperationalError string
  | ProgrammingError string
  | RuntimeError string
  | KeyError
  | TypeError string
  | AttributeError string
  | OSError string
  | IndexError
  | ValueError string

text \<open>
  The SQL texts the mapping methods build, one constructor per text, named as the local constant
  that holds the text in the source; the argument is the table name as it is spliced between
  the double quotes (\<open>INDEX_CMD\<close> has the indexed column first). \<open>BadSql\<close> stands for a text
  the engine rejects.
\<close>

datatype sql =
    CREATE_TABLE_SQL string
  | INDEX_CMD string string
  | GET_LEN string
  | GET_MAX string
  | GET_KEYS string
  | GET_VALUES string
  | GET_ITEMS string
  | HAS_ITEM string
  | GET_ITEM string
  | ADD_ITEM string
  | DEL_ITEM string
  | UPDATE_ITEMS string
  | CLEAR_ALL string
  | BadSql string

text \<open>
  The first component of a queued request: one of the two reserved texts
  \<^verbatim>\<open>_REQUEST_CLOSE\<close>, \<^verbatim>\<open>_REQUEST_COMMIT\<close>, or a statement.
\<close>

datatype req = REQUEST_CLOSE | REQUEST_COMMIT | Statement sql

text \<open>What a result queue receives: a row, or the marker \<^verbatim>\<open>_RESPONSE_NO_MORE\<close>.\<close>

datatype item = Row row | RESPONSE_NO_MORE

text \<open>
  A queued request \<^verbatim>\<open>(req, arg, res_ref, outer_stack)\<close>. \<open>res_ref\<close> is a weak reference to the
  caller's result queue: \<open>None\<close> when the caller gave none, \<open>Some a\<close> for the queue at address
  \<open>a\<close>. The stack snapshot is only written to the log and is left out.
\<close>

type_synonym request = "req \<times> sqlval list \<times> nat option"

text \<open>
  What a call does for its caller: it returns, it raises, or it waits for ever on a result
  queue that nobody fills.
\<close>

datatype 'a outcome = Returns 'a | Raises exn | Blocks

section \<open>The backing engine\<close>

text \<open>
  sqlite3 is not part of the repository; this is its behaviour on the statements above, for a
  table with the columns \<open>key TEXT PRIMARY KEY\<close> and \<open>value BLOB\<close>. A stored row is
  \<open>(rowid, key, value)\<close>. A database is a list of named tables. Type affinity is not
  modelled: values are stored as they are bound.
\<close>

type_synonym table = "(int \<times> sqlval \<times> sqlval) list"

type_synonym database = "(string \<times> table) list"

text \<open>SQL equality: \<open>NULL\<close> equals nothing.\<close>

definition sql_eq :: "sqlval \<Rightarrow> sqlval \<Rightarrow> bool" where
  "sql_eq a b = (a \<noteq> SqlNull \<and> a = b)"

text \<open>A quoted identifier stands for its text with each doubled double quote read as one.\<close>

fun unquote_ident :: "string \<Rightarrow> string" where
  "unquote_ident (a # b # cs) =
     (if a = CHR 0x22 \<and> b = CHR 0x22 then a # unquote_ident cs
      else a # unquote_ident (b # cs))"
| "unquote_ident cs = cs"

fun max_rowid :: "table \<Rightarrow> int option" where
  "max_rowid [] = None"
| "max_rowid (r # rs) =
     Some (case max_rowid rs of None \<Rightarrow> fst r | Some m \<Rightarrow> max (fst r) m)"

text \<open>A new row gets the largest rowid in use plus one, or 1 in an empty table.\<close>

definition next_rowid :: "table \<Rightarrow> int" where
  "next_rowid t = (case max_rowid t of None \<Rightarrow> 1 | Some m \<Rightarrow> m + 1)"

definition order_by_rowid :: "table \<Rightarrow> table" where
  "order_by_rowid t = sort_key fst t"

definition delete_key :: "sqlval \<Rightarrow> table \<Rightarrow> table" where
  "delete_key k t = filter (\<lambda>r. \<not> sql_eq (fst (snd r)) k) t"

text \<open>\<open>REPLACE INTO\<close>: the row that holds the key is deleted, then the new row is inserted.\<close>

definition replace_into :: "sqlval \<Rightarrow> sqlval \<Rightarrow> table \<Rightarrow> table" where
  "replace_into k v t = (let t' = delete_key k t in t' @ [(next_rowid t', k, v)])"

definition lookup_table :: "database \<Rightarrow> string \<Rightarrow> table option" where
  "lookup_table db tn = map_of db (unquote_ident tn)"

definition store_table :: "database \<Rightarrow> string \<Rightarrow> table \<Rightarrow> database" where
  "store_table db tn t = AList.update (unquote_ident tn) t db"

definition no_such_table :: "exn + (row list \<times> database)" where
  "no_such_table = Inl (OperationalError ''no such table'')"

definition bad_bindings :: "exn + (row list \<times> database)" where
  "bad_bindings = Inl (ProgrammingError ''Incorrect number of bindings supplied'')"

text \<open>A query on a table: the rows it yields; the database is unchanged.\<close>

definition query :: "database \<Rightarrow> string \<Rightarrow> (table \<Rightarrow> row list) \<Rightarrow> exn + (row list \<times> database)" where
  "query db tn f = (case lookup_table db tn of None \<Rightarrow> no_such_table | Some t \<Rightarrow> Inr (f t, db))"

text \<open>A write on a table: no rows; the table is replaced.\<close>

definition modify :: "database \<Rightarrow> string \<Rightarrow> (table \<Rightarrow> table) \<Rightarrow> exn + (row list \<times> database)" where
  "modify db tn f =
     (case lookup_table db tn of None \<Rightarrow> no_such_table
      | Some t \<Rightarrow> Inr ([], store_table db tn (f t)))"

text \<open>\<^verbatim>\<open>cursor.execute(req, arg)\<close>: an exception, or the rows of the cursor and the new database.\<close>

fun cursor_execute :: "database \<Rightarrow> sql \<Rightarrow> sqlval list \<Rightarrow> exn + (row list \<times> database)" where
  "cursor_execute db (CREATE_TABLE_SQL tn) [] =
     (case lookup_table db tn of Some t \<Rightarrow> Inr ([], db)
      | None \<Rightarrow> Inr ([], db @ [(unquote_ident tn, [])]))"
| "cursor_execute db (INDEX_CMD idx tn) [] =
     (case lookup_table db tn of None \<Rightarrow> no_such_table
      | Some t \<Rightarrow> if idx = ''key'' \<or> idx = ''value'' then Inr ([], db)
                  else Inl (OperationalError ''no such column''))"
| "cursor_execute db (GET_LEN tn) [] = query db tn (\<lambda>t. [[SqlInt (int (length t))]])"
| "cursor_execute db (GET_MAX tn) [] =
     query db tn (\<lambda>t. [[case max_rowid t of None \<Rightarrow> SqlNull | Some m \<Rightarrow> SqlInt m]])"
| "cursor_execute db (GET_KEYS tn) [] =
     query db tn (\<lambda>t. map (\<lambda>r. [fst (snd r)]) (order_by_rowid t))"
| "cursor_execute db (GET_VALUES tn) [] =
     query db tn (\<lambda>t. map (\<lambda>r. [snd (snd r)]) (order_by_rowid t))"
| "cursor_execute db (GET_ITEMS tn) [] =
     query db tn (\<lambda>t. map (\<lambda>r. [fst (snd r), snd (snd r)]) (order_by_rowid t))"
| "cursor_execute db (HAS_ITEM tn) [k] =
     query db tn (\<lambda>t. map (\<lambda>r. [SqlInt 1]) (filter (\<lambda>r. sql_eq (fst (snd r)) k) t))"
| "cursor_execute db (GET_ITEM tn) [k] =
     query db tn (\<lambda>t. map (\<lambda>r. [snd (snd r)]) (filter (\<lambda>r. sql_eq (fst (snd r)) k) t))"
| "cursor_execute db (ADD_ITEM tn) [k, v] = modify db tn (replace_into k v)"
| "cursor_execute db (UPDATE_ITEMS tn) [k, v] = modify db tn (replace_into k v)"
| "cursor_execute db (DEL_ITEM tn) [k] = modify db tn (delete_key k)"
| "cursor_execute db (CLEAR_ALL tn) [] = modify db tn (\<lambda>t. [])"
| "cursor_execute db (BadSql s) arg = Inl (OperationalError ''syntax error'')"
| "cursor_execute db q arg = bad_bindings"

section \<open>sqlitemultithread.py: the worker and the calls into it\<close>

text \<open>
  The names bound in the module's global namespace: its imports (\<^verbatim>\<open>logging\<close>, \<^verbatim>\<open>sqlite3\<close>,
  \<^verbatim>\<open>threading\<close>, \<^verbatim>\<open>traceback\<close>, \<^verbatim>\<open>weakref\<close>, \<^verbatim>\<open>from queue import Queue\<close>) and its
  top-level definitions. Evaluating any other global name that is not a builtin raises
  \<open>NameError\<close>.
\<close>

definition sqlitemultithread_globals :: "string list" where
  "sqlitemultithread_globals =
     [''logging'', ''sqlite3'', ''threading'', ''traceback'', ''weakref'', ''Queue'',
      ''logger'', ''_REQUEST_CLOSE'', ''_REQUEST_COMMIT'', ''_RESPONSE_NO_MORE'',
      ''reraise'', ''_put'', ''SqliteMultithread'']"

text \<open>The thread: running its loop, returned from \<^verbatim>\<open>run\<close>, or ended by an uncaught exception.\<close>

datatype thread = Running | Finished | Died exn

text \<open>
  What the worker does, in the order it happens: its calls \<^verbatim>\<open>cursor.execute\<close>,
  \<^verbatim>\<open>conn.commit\<close> and \<^verbatim>\<open>conn.close\<close>, and each item a live result queue received.
\<close>

datatype event =
    Executed sql "sqlval list"
  | Committed
  | Closed
  | Delivered nat item

text \<open>
  The state of one \<^verbatim>\<open>SqliteMultithread\<close>: its fields \<open>autocommit\<close>, \<open>reqs\<close> and \<open>exception\<close>;
  the thread; the connection the thread owns (\<open>conn\<close>, and whether it is still open); the result
  queues that are alive, by address (\<open>queues a = None\<close>: no live queue at \<open>a\<close>, a weak reference
  to it is dead), and the next fresh address. Two logs are kept beside them, which the source
  does not keep and nothing below reads: \<open>submitted\<close>, every request ever put on
  \<^verbatim>\<open>self.reqs\<close>, and \<open>trace\<close>, the worker's events.
\<close>

record SqliteMultithread =
  autocommit :: bool
  reqs :: "request list"
  exception :: "exn option"
  thread :: thread
  conn :: database
  conn_open :: bool
  queues :: "nat \<Rightarrow> item list option"
  next_addr :: nat
  submitted :: "request list"
  trace :: "event list"

text \<open>\<^verbatim>\<open>_put(queue_reference, item)\<close>: 2 without a reference, 1 on a dead one, else 0.\<close>

definition put :: "SqliteMultithread \<Rightarrow> nat option \<Rightarrow> item \<Rightarrow> nat \<times> SqliteMultithread" where
  "put s queue_reference it =
     (case queue_reference of
        None \<Rightarrow> (2, s)
      | Some a \<Rightarrow>
          (case queues s a of
             None \<Rightarrow> (1, s)
           | Some q \<Rightarrow>
               (0, s\<lparr>queues := (queues s)(a \<mapsto> q @ [it]),
                      trace := trace s @ [Delivered a it]\<rparr>)))"

text \<open>\<^verbatim>\<open>for rec in cursor: if _put(res_ref, rec) == 1: break\<close>\<close>

fun put_rows :: "SqliteMultithread \<Rightarrow> nat option \<Rightarrow> row list \<Rightarrow> SqliteMultithread" where
  "put_rows s res_ref [] = s"
| "put_rows s res_ref (rec # recs) =
     (case put s res_ref (Row rec) of
        (n, s') \<Rightarrow> if n = 1 then s' else put_rows s' res_ref recs)"

definition conn_commit :: "SqliteMultithread \<Rightarrow> SqliteMultithread" where
  "conn_commit s = s\<lparr>trace := trace s @ [Committed]\<rparr>"

text \<open>
  The part of the loop body after the \<^verbatim>\<open>try\<close> statement: rows and marker to the result
  queue when there is a reference, then the commit under \<open>autocommit\<close>.
\<close>

definition respond :: "SqliteMultithread \<Rightarrow> nat option \<Rightarrow> row list \<Rightarrow> SqliteMultithread" where
  "respond s res_ref rows =
     (let s1 = (if res_ref \<noteq> None
                then snd (put (put_rows s res_ref rows) res_ref RESPONSE_NO_MORE)
                else s)
      in if autocommit s1 then conn_commit s1 else s1)"

text \<open>
  One turn of the loop of \<^verbatim>\<open>run\<close> on the request just taken from \<^verbatim>\<open>self.reqs\<close>. On
  \<^verbatim>\<open>_REQUEST_CLOSE\<close> the loop is left and the lines after it run: \<^verbatim>\<open>conn.close()\<close>, then the
  marker. The \<^verbatim>\<open>except Exception\<close> handler first evaluates \<^verbatim>\<open>sys.exc_info()\<close>; \<^verbatim>\<open>sys\<close> is a
  global name, so where it is unbound the handler itself raises \<open>NameError\<close>, which nothing
  in \<^verbatim>\<open>run\<close> catches. After a failed \<^verbatim>\<open>execute\<close> the cursor has no rows.
\<close>

definition step :: "SqliteMultithread \<Rightarrow> request \<Rightarrow> SqliteMultithread" where
  "step s r =
     (case r of (req, arg, res_ref) \<Rightarrow>
        (case req of
           REQUEST_CLOSE \<Rightarrow>
             (if res_ref = None then s\<lparr>thread := Died AssertionError\<rparr>
              else snd (put (s\<lparr>conn_open := False, trace := trace s @ [Closed]\<rparr>)
                          res_ref RESPONSE_NO_MORE)
                     \<lparr>thread := Finished\<rparr>)
         | REQUEST_COMMIT \<Rightarrow> snd (put (conn_commit s) res_ref RESPONSE_NO_MORE)
         | Statement q \<Rightarrow>
             (let s0 = s\<lparr>trace := trace s @ [Executed q arg]\<rparr> in
              case cursor_execute (conn s) q arg of
                Inr (rows, db') \<Rightarrow> respond (s0\<lparr>conn := db'\<rparr>) res_ref rows
              | Inl e \<Rightarrow>
                  (if ''sys'' \<in> set sqlitemultithread_globals
                   then respond (s0\<lparr>exception := Some e\<rparr>) res_ref []
                   else s0\<lparr>thread := Died (NameError ''sys'')\<rparr>))))"

text \<open>
  \<^verbatim>\<open>while True: req, arg, res_ref, outer_stack = self.reqs.get() ...\<close>: the worker takes the
  queued requests in order until the queue is empty (it then waits in \<^verbatim>\<open>get\<close>) or the thread
  has ended; requests behind the one that ended it stay queued.
\<close>

fun run_reqs :: "SqliteMultithread \<Rightarrow> request list \<Rightarrow> SqliteMultithread" where
  "run_reqs s [] = s\<lparr>reqs := []\<rparr>"
| "run_reqs s (r # rs) =
     (let s' = step (s\<lparr>reqs := rs\<rparr>) r
      in if thread s' = Running then run_reqs s' rs else s')"

definition run :: "SqliteMultithread \<Rightarrow> SqliteMultithread" where
  "run s = (if thread s = Running then run_reqs s (reqs s) else s)"

text \<open>
  \<^verbatim>\<open>check_raise_error\<close>: \<open>Some e\<close> when it raises \<open>e\<close>, having emptied the slot.
\<close>

definition check_raise_error :: "SqliteMultithread \<Rightarrow> exn option \<times> SqliteMultithread" where
  "check_raise_error s =
     (case exception s of
        None \<Rightarrow> (None, s)
      | Some e \<Rightarrow> (Some e, s\<lparr>exception := None\<rparr>))"

definition reqs_put :: "SqliteMultithread \<Rightarrow> request \<Rightarrow> SqliteMultithread" where
  "reqs_put s r = s\<lparr>reqs := reqs s @ [r], submitted := submitted s @ [r]\<rparr>"

text \<open>\<^verbatim>\<open>execute(req, arg, res)\<close>; \<open>res\<close> is the address of the caller's result queue, if any.\<close>

definition execute ::
  "SqliteMultithread \<Rightarrow> req \<Rightarrow> sqlval list \<Rightarrow> nat option \<Rightarrow> unit outcome \<times> SqliteMultithread" where
  "execute s req arg res =
     (case check_raise_error s of
        (Some e, s') \<Rightarrow> (Raises e, s')
      | (None, s') \<Rightarrow> (Returns (), reqs_put s' (req, arg, res)))"

fun execute_each ::
  "SqliteMultithread \<Rightarrow> req \<Rightarrow> sqlval list list \<Rightarrow> unit outcome \<times> SqliteMultithread" where
  "execute_each s req [] = (Returns (), s)"
| "execute_each s req (x # xs) =
     (case execute s req x None of
        (Returns u, s') \<Rightarrow> execute_each s' req xs
      | other \<Rightarrow> other)"

definition executemany ::
  "SqliteMultithread \<Rightarrow> req \<Rightarrow> sqlval list list \<Rightarrow> unit outcome \<times> SqliteMultithread" where
  "executemany s req items =
     (case execute_each s req items of
        (Returns u, s') \<Rightarrow>
          (case check_raise_error s' of
             (Some e, s'') \<Rightarrow> (Raises e, s'')
           | (None, s'') \<Rightarrow> (Returns (), s''))
      | other \<Rightarrow> other)"

text \<open>\<^verbatim>\<open>res = Queue()\<close>: a new, empty, live queue at a fresh address.\<close>

definition new_queue :: "SqliteMultithread \<Rightarrow> nat \<times> SqliteMultithread" where
  "new_queue s =
     (next_addr s, s\<lparr>queues := (queues s)(next_addr s \<mapsto> []), next_addr := Suc (next_addr s)\<rparr>)"

text \<open>The caller drops its last reference to the queue at \<open>a\<close>.\<close>

definition drop_queue :: "SqliteMultithread \<Rightarrow> nat \<Rightarrow> SqliteMultithread" where
  "drop_queue s a = s\<lparr>queues := (queues s)(a := None)\<rparr>"

text \<open>
  The loop of the generator \<^verbatim>\<open>select\<close> over the items its queue holds: \<^verbatim>\<open>rec = res.get()\<close>,
  \<^verbatim>\<open>self.check_raise_error()\<close>, stop at the marker, else yield. A \<^verbatim>\<open>get\<close> on the empty queue
  waits for ever: by then the worker has nothing left to deliver (see \<open>select\<close>).
\<close>

fun select_loop ::
  "SqliteMultithread \<Rightarrow> item list \<Rightarrow> row list outcome \<times> SqliteMultithread" where
  "select_loop s [] = (Blocks, s)"
| "select_loop s (rec # rest) =
     (case check_raise_error s of
        (Some e, s') \<Rightarrow> (Raises e, s')
      | (None, s') \<Rightarrow>
          (case rec of
             RESPONSE_NO_MORE \<Rightarrow> (Returns [], s')
           | Row r \<Rightarrow>
               (case select_loop s' rest of
                  (Returns rs, s'') \<Rightarrow> (Returns (r # rs), s'')
                | other \<Rightarrow> other)))"

text \<open>
  The first part of \<^verbatim>\<open>select\<close>, shared by both of its consumers: the new queue, \<^verbatim>\<open>execute\<close>, and
  the first \<^verbatim>\<open>res.get()\<close>. The caller waits there while the worker runs; it is the only caller,
  so the worker works off every request queued so far, this one last, and whatever the queue
  at \<open>a\<close> holds then is all it will ever hold. The result is the address, those items and the
  state; or the exception \<^verbatim>\<open>execute\<close> raised.
\<close>

definition select_start ::
  "SqliteMultithread \<Rightarrow> req \<Rightarrow> sqlval list \<Rightarrow> (nat \<times> item list) outcome \<times> SqliteMultithread" where
  "select_start s req arg =
     (case new_queue s of
        (a, s1) \<Rightarrow>
          (case execute s1 req arg (Some a) of
             (Returns u, s2) \<Rightarrow>
               (let s3 = run s2 in
                (Returns (a, case queues s3 a of None \<Rightarrow> [] | Some q \<Rightarrow> q), s3))
           | (Raises e, s2) \<Rightarrow> (Raises e, drop_queue s2 a)
           | (Blocks, s2) \<Rightarrow> (Blocks, s2)))"

text \<open>\<^verbatim>\<open>list(self.select(req, arg))\<close>: the generator run to its end.\<close>

definition select ::
  "SqliteMultithread \<Rightarrow> req \<Rightarrow> sqlval list \<Rightarrow> row list outcome \<times> SqliteMultithread" where
  "select s req arg =
     (case select_start s req arg of
        (Returns (a, its), s1) \<Rightarrow>
          (case select_loop s1 its of (out, s2) \<Rightarrow> (out, drop_queue s2 a))
      | (Raises e, s1) \<Rightarrow> (Raises e, s1)
      | (Blocks, s1) \<Rightarrow> (Blocks, s1))"

text \<open>
  \<^verbatim>\<open>select_one\<close>: \<^verbatim>\<open>next(iter(self.select(req, arg)))\<close>, \<open>None\<close> on \<^verbatim>\<open>StopIteration\<close>. Only the
  first turn of the generator's loop runs; the generator and its queue are dropped after it.
\<close>

definition select_one ::
  "SqliteMultithread \<Rightarrow> req \<Rightarrow> sqlval list \<Rightarrow> row option outcome \<times> SqliteMultithread" where
  "select_one s req arg =
     (case select_start s req arg of
        (Returns (a, its), s1) \<Rightarrow>
          (case its of
             [] \<Rightarrow> (Blocks, s1)
           | rec # rest \<Rightarrow>
               (case check_raise_error s1 of
                  (Some e, s2) \<Rightarrow> (Raises e, drop_queue s2 a)
                | (None, s2) \<Rightarrow>
                    (case rec of
                       RESPONSE_NO_MORE \<Rightarrow> (Returns None, drop_queue s2 a)
                     | Row r \<Rightarrow> (Returns (Some r), drop_queue s2 a))))
      | (Raises e, s1) \<Rightarrow> (Raises e, s1)
      | (Blocks, s1) \<Rightarrow> (Blocks, s1))"

text \<open>\<^verbatim>\<open>commit(blocking)\<close>\<close>

definition commit :: "SqliteMultithread \<Rightarrow> bool \<Rightarrow> unit outcome \<times> SqliteMultithread" where
  "commit s blocking =
     (if blocking then
        (case select_one s REQUEST_COMMIT [] of
           (Returns r, s') \<Rightarrow> (Returns (), s')
         | (Raises e, s') \<Rightarrow> (Raises e, s')
         | (Blocks, s') \<Rightarrow> (Blocks, s'))
      else execute s REQUEST_COMMIT [] None)"

text \<open>
  \<^verbatim>\<open>close(force)\<close>. Forced: the request carries \<^verbatim>\<open>weakref.ref(Queue())\<close>, a reference to a queue
  nobody else holds, so it is dead at once; nothing is checked and nothing waited for.
  Otherwise \<^verbatim>\<open>select_one\<close>, then \<^verbatim>\<open>join\<close>, which returns once the thread has ended.
\<close>

definition close :: "SqliteMultithread \<Rightarrow> bool \<Rightarrow> unit outcome \<times> SqliteMultithread" where
  "close s force =
     (if force then
        (Returns (), reqs_put (s\<lparr>next_addr := Suc (next_addr s)\<rparr>) (REQUEST_CLOSE, [], Some (next_addr s)))
      else
        (case select_one s REQUEST_CLOSE [] of
           (Returns r, s') \<Rightarrow> (if thread s' = Running then (Blocks, s') else (Returns (), s'))
         | (Raises e, s') \<Rightarrow> (Raises e, s')
         | (Blocks, s') \<Rightarrow> (Blocks, s')))"

text \<open>
  \<^verbatim>\<open>__init__\<close> and the start of \<^verbatim>\<open>run\<close>: the fields are set, the thread is started and
  \<^verbatim>\<open>_connect\<close> has opened the connection on the database the file holds; the caller goes on
  once the lock is released. A failure to connect is not modelled.
\<close>

definition SqliteMultithread_init :: "bool \<Rightarrow> database \<Rightarrow> SqliteMultithread" where
  "SqliteMultithread_init ac db =
     \<lparr>autocommit = ac, reqs = [], exception = None, thread = Running, conn = db,
      conn_open = True, queues = (\<lambda>a. None), next_addr = 0, submitted = [], trace = []\<rparr>"

section \<open>sqlitedb.py and sqlitedict.py: the mapping\<close>

text \<open>Sequencing of calls: what follows runs only when the call before it returned.\<close>

definition and_then :: "'a outcome \<times> 's \<Rightarrow> ('a \<Rightarrow> 's \<Rightarrow> 'b outcome \<times> 's) \<Rightarrow> 'b outcome \<times> 's" where
  "and_then m f =
     (case m of
        (Returns x, s) \<Rightarrow> f x s
      | (Raises e, s) \<Rightarrow> (Raises e, s)
      | (Blocks, s) \<Rightarrow> (Blocks, s))"

text \<open>
  The files and directories the process sees: the database each file holds, and the directories
  that exist.
\<close>

record filesystem =
  files :: "string \<Rightarrow> database option"
  dirs :: "string list"

definition path_exists :: "filesystem \<Rightarrow> string \<Rightarrow> bool" where
  "path_exists fs p = (p \<in> set (dirs fs) \<or> files fs p \<noteq> None)"

definition path_isfile :: "filesystem \<Rightarrow> string \<Rightarrow> bool" where
  "path_isfile fs p = (files fs p \<noteq> None)"

text \<open>\<^verbatim>\<open>os.remove(path)\<close>: raises unless the path is a file.\<close>

definition os_remove :: "filesystem \<Rightarrow> string \<Rightarrow> exn option \<times> filesystem" where
  "os_remove fs p =
     (if path_isfile fs p then (None, fs\<lparr>files := (files fs)(p := None)\<rparr>)
      else (Some (OSError p), fs))"

text \<open>\<^verbatim>\<open>os.path.dirname\<close> (posixpath).\<close>

definition dirname :: "string \<Rightarrow> string" where
  "dirname p =
     (let head = rev (dropWhile (\<lambda>c. c \<noteq> CHR ''/'') (rev p))
      in if head \<noteq> [] \<and> \<not> list_all (\<lambda>c. c = CHR ''/'') head
         then rev (dropWhile (\<lambda>c. c = CHR ''/'') (rev head))
         else head)"

text \<open>\<^verbatim>\<open>tablename.replace('"', '""')\<close>\<close>

definition double_quotes :: "string \<Rightarrow> string" where
  "double_quotes tn = concat (map (\<lambda>c. if c = CHR 0x22 then [c, c] else [c]) tn)"

text \<open>
  The names bound in the global namespace of \<^verbatim>\<open>sqlitedb.py\<close>: its imports (\<^verbatim>\<open>os\<close>, \<^verbatim>\<open>sqlite3\<close>,
  \<^verbatim>\<open>tempfile\<close>, \<^verbatim>\<open>logging\<close>, \<^verbatim>\<open>Queue\<close>, \<^verbatim>\<open>threading\<close>, \<^verbatim>\<open>traceback\<close>, \<^verbatim>\<open>weakref\<close>) and
  the one class it defines.
\<close>

definition sqlitedb_globals :: "string list" where
  "sqlitedb_globals =
     [''os'', ''sqlite3'', ''tempfile'', ''logging'', ''Queue'', ''threading'', ''traceback'',
      ''weakref'', ''SqliteDb'']"

definition VALID_FLAGS :: "string list" where
  "VALID_FLAGS = [''c'', ''r'', ''w'', ''n'']"

text \<open>
  A \<^verbatim>\<open>SqliteDict\<close>: the four hooks, and the fields \<^verbatim>\<open>SqliteDb.__init__\<close> sets that are read
  later (\<open>self_autocommit\<close> and \<open>self_conn\<close> are \<^verbatim>\<open>self.autocommit\<close> and \<^verbatim>\<open>self.conn\<close>;
  \<open>self_conn = None\<close> also stands for an object that has no such attribute yet).
\<close>

record ('k, 'v) SqliteDict =
  encode :: "'v \<Rightarrow> sqlval"
  decode :: "sqlval \<Rightarrow> 'v"
  encode_key :: "'k \<Rightarrow> sqlval"
  decode_key :: "sqlval \<Rightarrow> 'k"
  in_temp :: bool
  flag :: string
  filename :: string
  tablename :: string
  self_autocommit :: bool
  self_conn :: "SqliteMultithread option"

text \<open>
  A call of a method of \<^verbatim>\<open>self.conn\<close>. On \<open>None\<close> the attribute lookup raises
  \<open>AttributeError\<close>.
\<close>

definition on_conn ::
  "('k, 'v) SqliteDict \<Rightarrow> (SqliteMultithread \<Rightarrow> 'a outcome \<times> SqliteMultithread)
   \<Rightarrow> 'a outcome \<times> ('k, 'v) SqliteDict" where
  "on_conn h f =
     (case self_conn h of
        None \<Rightarrow> (Raises (AttributeError ''NoneType''), h)
      | Some s \<Rightarrow> (case f s of (out, s') \<Rightarrow> (out, h\<lparr>self_conn := Some s'\<rparr>)))"

text \<open>\<^verbatim>\<open>self.conn.select_one(...)[0]\<close>: subscripting \<open>None\<close> raises \<open>TypeError\<close>.\<close>

definition first_column :: "row option \<Rightarrow> 's \<Rightarrow> sqlval outcome \<times> 's" where
  "first_column r s =
     (case r of
        None \<Rightarrow> (Raises (TypeError ''NoneType''), s)
      | Some [] \<Rightarrow> (Raises IndexError, s)
      | Some (x # xs) \<Rightarrow> (Returns x, s))"

definition SqliteDict_len :: "('k, 'v) SqliteDict \<Rightarrow> int outcome \<times> ('k, 'v) SqliteDict" where
  "SqliteDict_len h =
     and_then (and_then (on_conn h (\<lambda>s. select_one s (Statement (GET_LEN (tablename h))) []))
                 first_column)
       (\<lambda>rows h'. case rows of
                     SqlNull \<Rightarrow> (Returns 0, h')
                   | SqlInt n \<Rightarrow> (Returns n, h')
                   | other \<Rightarrow> (Raises (TypeError ''__len__''), h'))"

definition SqliteDict_bool :: "('k, 'v) SqliteDict \<Rightarrow> bool outcome \<times> ('k, 'v) SqliteDict" where
  "SqliteDict_bool h =
     and_then (and_then (on_conn h (\<lambda>s. select_one s (Statement (GET_MAX (tablename h))) []))
                 first_column)
       (\<lambda>m h'. (Returns (m \<noteq> SqlNull), h'))"

text \<open>\<^verbatim>\<open>keys\<close>, \<^verbatim>\<open>values\<close>, \<^verbatim>\<open>items\<close>: the generators run to their end by \<^verbatim>\<open>list\<close>.\<close>

fun decode_column :: "(sqlval \<Rightarrow> 'a) \<Rightarrow> row list \<Rightarrow> 's \<Rightarrow> 'a list outcome \<times> 's" where
  "decode_column f [] s = (Returns [], s)"
| "decode_column f ([] # rows) s = (Raises IndexError, s)"
| "decode_column f ((x # xs) # rows) s =
     and_then (decode_column f rows s) (\<lambda>ys s'. (Returns (f x # ys), s'))"

fun decode_pairs ::
  "(sqlval \<Rightarrow> 'a) \<Rightarrow> (sqlval \<Rightarrow> 'b) \<Rightarrow> row list \<Rightarrow> 's \<Rightarrow> ('a \<times> 'b) list outcome \<times> 's" where
  "decode_pairs f g [] s = (Returns [], s)"
| "decode_pairs f g ([x, y] # rows) s =
     and_then (decode_pairs f g rows s) (\<lambda>ps s'. (Returns ((f x, g y) # ps), s'))"
| "decode_pairs f g (r # rows) s = (Raises (ValueError ''unpack''), s)"

definition SqliteDict_keys :: "('k, 'v) SqliteDict \<Rightarrow> 'k list outcome \<times> ('k, 'v) SqliteDict" where
  "SqliteDict_keys h =
     and_then (on_conn h (\<lambda>s. select s (Statement (GET_KEYS (tablename h))) []))
       (decode_column (decode_key h))"

definition SqliteDict_values :: "('k, 'v) SqliteDict \<Rightarrow> 'v list outcome \<times> ('k, 'v) SqliteDict" where
  "SqliteDict_values h =
     and_then (on_conn h (\<lambda>s. select s (Statement (GET_VALUES (tablename h))) []))
       (decode_column (decode h))"

definition SqliteDict_items ::
  "('k, 'v) SqliteDict \<Rightarrow> ('k \<times> 'v) list outcome \<times> ('k, 'v) SqliteDict" where
  "SqliteDict_items h =
     and_then (on_conn h (\<lambda>s. select s (Statement (GET_ITEMS (tablename h))) []))
       (decode_pairs (decode_key h) (decode h))"

definition SqliteDict_contains ::
  "('k, 'v) SqliteDict \<Rightarrow> 'k \<Rightarrow> bool outcome \<times> ('k, 'v) SqliteDict" where
  "SqliteDict_contains h key =
     and_then (on_conn h (\<lambda>s. select_one s (Statement (HAS_ITEM (tablename h))) [encode_key h key]))
       (\<lambda>r h'. (Returns (r \<noteq> None), h'))"


text \<open>\<^verbatim>\<open>SqliteDb.commit\<close>: its parameter \<^verbatim>\<open>blocking\<close> is not passed on.\<close>

definition SqliteDb_commit :: "('k, 'v) SqliteDict \<Rightarrow> unit outcome \<times> ('k, 'v) SqliteDict" where
  "SqliteDb_commit h =
     (if self_conn h \<noteq> None then on_conn h (\<lambda>s. commit s True) else (Returns (), h))"

definition commit_if_autocommit ::
  "unit \<Rightarrow> ('k, 'v) SqliteDict \<Rightarrow> unit outcome \<times> ('k, 'v) SqliteDict" where
  "commit_if_autocommit u h = (if self_autocommit h then SqliteDb_commit h else (Returns (), h))"

definition SqliteDict_setitem ::
  "('k, 'v) SqliteDict \<Rightarrow> 'k \<Rightarrow> 'v \<Rightarrow> unit outcome \<times> ('k, 'v) SqliteDict" where
  "SqliteDict_setitem h key v =
     (if flag h = ''r'' then (Raises (RuntimeError ''Refusing to write to read-only SqliteDict''), h)
      else and_then
             (on_conn h (\<lambda>s. execute s (Statement (ADD_ITEM (tablename h)))
                                [encode_key h key, encode h v] None))
             commit_if_autocommit)"

definition SqliteDict_delitem ::
  "('k, 'v) SqliteDict \<Rightarrow> 'k \<Rightarrow> unit outcome \<times> ('k, 'v) SqliteDict" where
  "SqliteDict_delitem h key =
     (if flag h = ''r'' then (Raises (RuntimeError ''Refusing to delete from read-only SqliteDict''), h)
      else and_then (SqliteDict_contains h key)
             (\<lambda>present h1.
                if \<not> present then (Raises KeyError, h1)
                else and_then
                       (on_conn h1 (\<lambda>s. execute s (Statement (DEL_ITEM (tablename h1)))
                                           [encode_key h1 key] None))
                       commit_if_autocommit))"

text \<open>
  \<^verbatim>\<open>update(items, **kwds)\<close>: \<open>items\<close> as the list of pairs it is or its \<^verbatim>\<open>.items()\<close> gives;
  \<open>update_items\<close> is the body without the lines for \<^verbatim>\<open>kwds\<close>, which call \<^verbatim>\<open>self.update(kwds)\<close>
  with no keywords.
\<close>

definition update_items ::
  "('k, 'v) SqliteDict \<Rightarrow> ('k \<times> 'v) list \<Rightarrow> unit outcome \<times> ('k, 'v) SqliteDict" where
  "update_items h items =
     (if flag h = ''r'' then (Raises (RuntimeError ''Refusing to update read-only SqliteDict''), h)
      else and_then
             (on_conn h (\<lambda>s. executemany s (Statement (UPDATE_ITEMS (tablename h)))
                                (map (\<lambda>(k, v). [encode_key h k, encode h v]) items)))
             commit_if_autocommit)"

definition SqliteDict_update ::
  "('k, 'v) SqliteDict \<Rightarrow> ('k \<times> 'v) list \<Rightarrow> ('k \<times> 'v) list \<Rightarrow> unit outcome \<times> ('k, 'v) SqliteDict" where
  "SqliteDict_update h items kwds =
     (if flag h = ''r'' then (Raises (RuntimeError ''Refusing to update read-only SqliteDict''), h)
      else and_then
             (on_conn h (\<lambda>s. executemany s (Statement (UPDATE_ITEMS (tablename h)))
                                (map (\<lambda>(k, v). [encode_key h k, encode h v]) items)))
             (\<lambda>u h1. and_then (if kwds \<noteq> [] then update_items h1 kwds else (Returns (), h1))
                        commit_if_autocommit))"

definition SqliteDict_clear :: "('k, 'v) SqliteDict \<Rightarrow> unit outcome \<times> ('k, 'v) SqliteDict" where
  "SqliteDict_clear h =
     (if flag h = ''r'' then (Raises (RuntimeError ''Refusing to clear read-only SqliteDict''), h)
      else and_then (on_conn h (\<lambda>s. commit s True))
             (\<lambda>u h1. and_then
                        (on_conn h1 (\<lambda>s. execute s (Statement (CLEAR_ALL (tablename h1))) [] None))
                        (\<lambda>u h2. on_conn h2 (\<lambda>s. commit s True))))"

text \<open>
  \<^verbatim>\<open>SqliteDb.close(do_log, force)\<close>, on the object and the file system. The exception of
  \<^verbatim>\<open>os.remove\<close> is caught and dropped.
\<close>

definition SqliteDb_close ::
  "('k, 'v) SqliteDict \<times> filesystem \<Rightarrow> bool
   \<Rightarrow> unit outcome \<times> ('k, 'v) SqliteDict \<times> filesystem" where
  "SqliteDb_close hf force =
     (case hf of (h, fs) \<Rightarrow>
        and_then
          (case self_conn h of
             None \<Rightarrow> (Returns (), hf)
           | Some s0 \<Rightarrow>
               (case and_then
                       (if autocommit s0 \<and> \<not> force then on_conn h (\<lambda>s. commit s True)
                        else (Returns (), h))
                       (\<lambda>u h1. and_then (on_conn h1 (\<lambda>s. close s force))
                                  (\<lambda>u h2. (Returns (), h2\<lparr>self_conn := None\<rparr>)))
                of (out, h') \<Rightarrow> (out, h', fs)))
          (\<lambda>u (h', fs'). if in_temp h' then (Returns (), h', snd (os_remove fs' (filename h')))
                          else (Returns (), h', fs')))"

definition SqliteDb_terminate ::
  "('k, 'v) SqliteDict \<times> filesystem \<Rightarrow> unit outcome \<times> ('k, 'v) SqliteDict \<times> filesystem" where
  "SqliteDb_terminate hf =
     (case hf of (h, fs) \<Rightarrow>
        if flag h = ''r'' then (Raises (RuntimeError ''Refusing to terminate read-only SqliteDict''), hf)
        else and_then (SqliteDb_close hf False)
               (\<lambda>u (h', fs'). if filename h' = '':memory:'' then (Returns (), h', fs')
                               else if path_isfile fs' (filename h')
                                    then (Returns (), h', snd (os_remove fs' (filename h')))
                                    else (Returns (), h', fs')))"

text \<open>\<^verbatim>\<open>__del__\<close>: a forced close; whatever it raises is dropped.\<close>

definition SqliteDb_del ::
  "('k, 'v) SqliteDict \<times> filesystem \<Rightarrow> unit outcome \<times> ('k, 'v) SqliteDict \<times> filesystem" where
  "SqliteDb_del hf =
     (case SqliteDb_close hf True of
        (Raises e, hf') \<Rightarrow> (Returns (), hf')
      | other \<Rightarrow> other)"

text \<open>
  \<^verbatim>\<open>create_table\<close> and \<^verbatim>\<open>create_indexes\<close> of \<^verbatim>\<open>SqliteDict\<close>, with the class's own columns
  (\<open>key\<close>, \<open>value\<close>) and its one index (on \<open>key\<close>).
\<close>

definition create_table :: "('k, 'v) SqliteDict \<Rightarrow> unit outcome \<times> ('k, 'v) SqliteDict" where
  "create_table h =
     on_conn h (\<lambda>s. execute s (Statement (CREATE_TABLE_SQL (tablename h))) [] None)"

definition create_indexes :: "('k, 'v) SqliteDict \<Rightarrow> unit outcome \<times> ('k, 'v) SqliteDict" where
  "create_indexes h =
     on_conn h (\<lambda>s. execute s (Statement (INDEX_CMD ''key'' (tablename h))) [] None)"

text \<open>
  \<^verbatim>\<open>sqlite3.connect(filename)\<close>: the database the file holds; a missing file is created empty;
  \<^verbatim>\<open>:memory:\<close> is a fresh database with no file.
\<close>

definition sqlite3_connect :: "filesystem \<Rightarrow> string \<Rightarrow> database \<times> filesystem" where
  "sqlite3_connect fs f =
     (if f = '':memory:'' then ([], fs)
      else case files fs f of
             Some db \<Rightarrow> (db, fs)
           | None \<Rightarrow> ([], fs\<lparr>files := (files fs)(f \<mapsto> [])\<rparr>))"

text \<open>\<^verbatim>\<open>get_tablenames(filename)\<close>: the names of the tables in the file.\<close>

definition get_tablenames :: "filesystem \<Rightarrow> string \<Rightarrow> exn + string list" where
  "get_tablenames fs f =
     (case files fs f of
        None \<Rightarrow> Inl (OSError ''file does not exist'')
      | Some db \<Rightarrow> Inr (map fst db))"

text \<open>
  The last lines of \<^verbatim>\<open>SqliteDb.__init__\<close>, from \<^verbatim>\<open>if self.flag == 'r'\<close> on: the table must
  exist in read-only mode and is created otherwise; mode \<^verbatim>\<open>'w'\<close> clears it.
\<close>

definition open_table ::
  "('k, 'v) SqliteDict \<Rightarrow> filesystem \<Rightarrow> unit outcome \<times> ('k, 'v) SqliteDict" where
  "open_table h fs =
     and_then
       (if flag h = ''r'' then
          (case get_tablenames fs (filename h) of
             Inl e \<Rightarrow> (Raises e, h)
           | Inr names \<Rightarrow>
               if tablename h \<notin> set names
               then (Raises (RuntimeError ''Refusing to create a new table in read-only DB mode''), h)
               else (Returns (), h))
        else and_then (create_table h)
               (\<lambda>u h1. and_then (create_indexes h1)
                          (\<lambda>u h2. if self_autocommit h2 then on_conn h2 (\<lambda>s. commit s True)
                                   else (Returns (), h2))))
       (\<lambda>u h3. if flag h3 = ''w'' then SqliteDict_clear h3 else (Returns (), h3))"

text \<open>
  \<^verbatim>\<open>SqliteDict.__init__\<close>, which stores the hooks and calls \<^verbatim>\<open>SqliteDb.__init__\<close>. \<open>fname = None\<close>
  is the call without a file name; \<open>tmp\<close> is the name \<^verbatim>\<open>tempfile.mkstemp\<close> then gives to the
  file it creates. The flag is checked against \<^verbatim>\<open>BaseSqlite.VALID_FLAGS\<close>, and \<^verbatim>\<open>_new_conn\<close>
  calls \<^verbatim>\<open>SqliteMultithread(...)\<close>: both are global names of \<^verbatim>\<open>sqlitedb.py\<close>, and evaluating
  an unbound one raises \<open>NameError\<close>. The result is the new object, or the exception that leaves
  the constructor.
\<close>

definition SqliteDict_init ::
  "filesystem \<Rightarrow> string \<Rightarrow> string option \<Rightarrow> string \<Rightarrow> string \<Rightarrow> bool
   \<Rightarrow> ('v \<Rightarrow> sqlval) \<Rightarrow> (sqlval \<Rightarrow> 'v) \<Rightarrow> ('k \<Rightarrow> sqlval) \<Rightarrow> (sqlval \<Rightarrow> 'k)
   \<Rightarrow> ('k, 'v) SqliteDict outcome \<times> filesystem" where
  "SqliteDict_init fs tmp fname tname flg ac enc dec enck deck =
     (let fs1 = (case fname of None \<Rightarrow> fs\<lparr>files := (files fs)(tmp \<mapsto> [])\<rparr> | Some f \<Rightarrow> fs);
          f = (case fname of None \<Rightarrow> tmp | Some f \<Rightarrow> f)
      in if ''BaseSqlite'' \<notin> set sqlitedb_globals then (Raises (NameError ''BaseSqlite''), fs1)
         else if flg \<notin> set VALID_FLAGS then (Raises (RuntimeError ''Unrecognized flag''), fs1)
         else
           (case (if flg = ''n'' \<and> path_exists fs1 f then os_remove fs1 f else (None, fs1)) of
              (Some e, fs2) \<Rightarrow> (Raises e, fs2)
            | (None, fs2) \<Rightarrow>
                if dirname f \<noteq> [] \<and> \<not> path_exists fs2 (dirname f)
                then (Raises (RuntimeError ''Error! The directory does not exist''), fs2)
                else if ''SqliteMultithread'' \<notin> set sqlitedb_globals
                then (Raises (NameError ''SqliteMultithread''), fs2)
                else
                  (case sqlite3_connect fs2 f of
                     (db, fs3) \<Rightarrow>
                       (case open_table
                               \<lparr>encode = enc, decode = dec, encode_key = enck, decode_key = deck,
                                in_temp = (fname = None), flag = flg, filename = f,
                                tablename = double_quotes tname, self_autocommit = ac,
                                self_conn = Some (SqliteMultithread_init ac db)\<rparr> fs3 of
                          (Returns u, h) \<Rightarrow> (Returns h, fs3)
                        | (Raises e, h) \<Rightarrow> (Raises e, fs3)
                        | (Blocks, h) \<Rightarrow> (Blocks, fs3)))))"

section \<open>States in which the mapping can be used\<close>

text \<open>
  The worker is alive once it has worked off what is queued, no exception is waiting in the
  slot, and no queued request carries a result queue (the requests a caller leaves queued are
  the ones it did not wait for).
\<close>

definition serving :: "SqliteMultithread \<Rightarrow> bool" where
  "serving s =
     (thread (run s) = Running \<and> exception s = None \<and> list_all (\<lambda>r. snd (snd r) = None) (reqs s))"

text \<open>The database as the next request will find it.\<close>

definition db_of :: "SqliteMultithread \<Rightarrow> database" where
  "db_of s = conn (run s)"

text \<open>An open mapping whose worker is serving and whose table exists; and the rows of that table.\<close>

definition usable :: "('k, 'v) SqliteDict \<Rightarrow> bool" where
  "usable h =
     (case self_conn h of
        None \<Rightarrow> False
      | Some s \<Rightarrow> serving s \<and> lookup_table (db_of s) (tablename h) \<noteq> None)"

definition stored :: "('k, 'v) SqliteDict \<Rightarrow> table" where
  "stored h =
     (case self_conn h of
        None \<Rightarrow> []
      | Some s \<Rightarrow> (case lookup_table (db_of s) (tablename h) of None \<Rightarrow> [] | Some t \<Rightarrow> t))"

text \<open>The requests the mapping's worker has been sent so far, oldest first.\<close>

definition issued :: "('k, 'v) SqliteDict \<Rightarrow> req list" where
  "issued h = (case self_conn h of None \<Rightarrow> [] | Some s \<Rightarrow> map fst (submitted s))"


section \<open>The worker: what it leaves alone\<close>

lemma put_frame [simp]:
  "autocommit (snd (put s ref it)) = autocommit s"
  "reqs (snd (put s ref it)) = reqs s"
  "exception (snd (put s ref it)) = exception s"
  "thread (snd (put s ref it)) = thread s"
  "conn (snd (put s ref it)) = conn s"
  "conn_open (snd (put s ref it)) = conn_open s"
  "next_addr (snd (put s ref it)) = next_addr s"
  "submitted (snd (put s ref it)) = submitted s"
  by (auto simp: put_def split: option.splits)

lemma put_rows_frame [simp]:
  "autocommit (put_rows s ref rows) = autocommit s"
  "reqs (put_rows s ref rows) = reqs s"
  "exception (put_rows s ref rows) = exception s"
  "thread (put_rows s ref rows) = thread s"
  "conn (put_rows s ref rows) = conn s"
  "conn_open (put_rows s ref rows) = conn_open s"
  "next_addr (put_rows s ref rows) = next_addr s"
  "submitted (put_rows s ref rows) = submitted s"
  by (induction s ref rows rule: put_rows.induct)
     (auto simp: put_def split: option.splits)

text \<open>
  No turn of the loop writes \<^verbatim>\<open>self.exception\<close>: the one assignment to it stands behind
  \<^verbatim>\<open>sys.exc_info()\<close>.
\<close>

lemma step_keeps_exception: "exception (step s r) = exception s"
  by (cases r)
     (auto simp: step_def respond_def conn_commit_def sqlitemultithread_globals_def Let_def
      split: req.splits sum.splits prod.splits)

lemma run_reqs_keeps_exception: "exception (run_reqs s rs) = exception s"
  by (induction s rs rule: run_reqs.induct) (simp_all add: Let_def step_keeps_exception)

lemma run_keeps_exception: "exception (run s) = exception s"
  by (simp add: run_def run_reqs_keeps_exception)

section \<open>The worker's loop\<close>

text \<open>
  The loop of \<^verbatim>\<open>run\<close> takes the queued requests one after the other: what it does with a
  request does not depend on what is queued behind it, and while the thread is running the
  requests behind are taken next.
\<close>

lemma put_reqs_update:
  "put (s\<lparr>reqs := x\<rparr>) ref it = (fst (put s ref it), (snd (put s ref it))\<lparr>reqs := x\<rparr>)"
  by (simp add: put_def split: option.splits)

lemma put_rows_reqs_update:
  "put_rows (s\<lparr>reqs := x\<rparr>) ref rows = (put_rows s ref rows)\<lparr>reqs := x\<rparr>"
proof (induction rows arbitrary: s)
  case Nil
  show ?case by simp
next
  case (Cons r rows)
  show ?case
    by (simp add: put_reqs_update Cons.IH split: prod.splits)
qed

lemma respond_reqs_update:
  "respond (s\<lparr>reqs := x\<rparr>) ref rows = (respond s ref rows)\<lparr>reqs := x\<rparr>"
  by (simp add: respond_def put_rows_reqs_update put_reqs_update conn_commit_def Let_def)

lemma reqs_update_outwards:
  "s\<lparr>reqs := x, trace := T\<rparr> = s\<lparr>trace := T\<rparr>\<lparr>reqs := x\<rparr>"
  "s\<lparr>reqs := x, conn := d\<rparr> = s\<lparr>conn := d\<rparr>\<lparr>reqs := x\<rparr>"
  "s\<lparr>reqs := x, conn_open := c\<rparr> = s\<lparr>conn_open := c\<rparr>\<lparr>reqs := x\<rparr>"
  "s\<lparr>reqs := x, thread := th\<rparr> = s\<lparr>thread := th\<rparr>\<lparr>reqs := x\<rparr>"
  "s\<lparr>reqs := x, exception := e\<rparr> = s\<lparr>exception := e\<rparr>\<lparr>reqs := x\<rparr>"
  by simp_all

lemma step_reqs_update: "step (s\<lparr>reqs := x\<rparr>) r = (step s r)\<lparr>reqs := x\<rparr>"
  by (cases r)
     (simp add: step_def Let_def conn_commit_def reqs_update_outwards put_reqs_update
        respond_reqs_update split: req.splits sum.splits prod.splits)

lemma step_reqs [simp]: "reqs (step s r) = reqs s"
  by (cases r) (auto simp: step_def respond_def conn_commit_def Let_def
      split: req.splits sum.splits prod.splits)

lemma run_reqs_ignores_reqs: "run_reqs (s\<lparr>reqs := x\<rparr>) rs = run_reqs s rs"
  by (cases rs) simp_all

lemma run_reqs_Running_reqs: "thread (run_reqs s rs) = Running \<Longrightarrow> reqs (run_reqs s rs) = []"
  by (induction s rs rule: run_reqs.induct) (auto simp: Let_def split: if_splits)

lemma run_reqs_append:
  "thread (run_reqs s pre) = Running \<Longrightarrow> run_reqs s (pre @ rs) = run_reqs (run_reqs s pre) rs"
proof (induction pre arbitrary: s)
  case Nil
  show ?case by (simp add: run_reqs_ignores_reqs)
next
  case (Cons r pre)
  let ?s1 = "step (s\<lparr>reqs := pre\<rparr>) r"
  have eq: "step (s\<lparr>reqs := pre @ rs\<rparr>) r = ?s1\<lparr>reqs := pre @ rs\<rparr>"
    by (simp add: step_reqs_update)
  from Cons.prems have run1: "thread ?s1 = Running"
    by (auto simp: Let_def split: if_splits)
  with Cons.prems have "thread (run_reqs ?s1 pre) = Running"
    by (simp add: Let_def)
  then have "run_reqs ?s1 (pre @ rs) = run_reqs (run_reqs ?s1 pre) rs"
    by (rule Cons.IH)
  with run1 show ?case
    by (simp add: Let_def eq run_reqs_ignores_reqs)
qed

lemma run_Running_start: "thread (run s) = Running \<Longrightarrow> thread s = Running"
  by (auto simp: run_def split: if_splits)

lemma run_reqs_field: "thread s = Running \<Longrightarrow> run (s\<lparr>reqs := rs\<rparr>) = run_reqs s rs"
  by (simp add: run_def run_reqs_ignores_reqs)

text \<open>The worker reaches a request behind others and then goes on with the rest.\<close>

lemma run_reaches:
  assumes "thread (run (s\<lparr>reqs := pre\<rparr>)) = Running"
  shows "run (s\<lparr>reqs := pre @ r # rest\<rparr>) =
         (let w = step ((run (s\<lparr>reqs := pre\<rparr>))\<lparr>reqs := rest\<rparr>) r
          in if thread w = Running then run w else w)"
proof -
  from assms have st: "thread s = Running"
    using run_Running_start [of "s\<lparr>reqs := pre\<rparr>"] by simp
  with assms have pre: "thread (run_reqs s pre) = Running"
    by (simp add: run_reqs_field)
  have w: "run (s\<lparr>reqs := pre\<rparr>) = run_reqs s pre"
    using st by (simp add: run_reqs_field)
  let ?w = "step ((run_reqs s pre)\<lparr>reqs := rest\<rparr>) r"
  have "reqs ?w = rest" by simp
  then have rw: "thread ?w = Running \<Longrightarrow> run ?w = run_reqs ?w rest"
    by (simp add: run_def)
  have "run (s\<lparr>reqs := pre @ r # rest\<rparr>) = run_reqs (run_reqs s pre) (r # rest)"
    using st pre by (simp add: run_reqs_field run_reqs_append)
  also have "\<dots> = (if thread ?w = Running then run_reqs ?w rest else ?w)"
    by (simp add: Let_def)
  also have "\<dots> = (if thread ?w = Running then run ?w else ?w)"
    using rw by simp
  finally show ?thesis
    unfolding w by (simp add: Let_def)
qed

section \<open>The claims about the worker\<close>

text \<open>
  C1. An engine failure raised by a fire-and-forget statement should be captured in the slot
  and re-raised exactly once, at the next call into the engine. On the code: caller A submits a
  statement the engine rejects and returns; the worker takes it, \<^verbatim>\<open>cursor.execute\<close> raises, and
  the handler raises \<open>NameError\<close> at \<^verbatim>\<open>sys.exc_info()\<close>, which ends the thread with the slot
  still empty; the next call, by caller B, returns without raising anything. The failure is
  delivered to nobody.
\<close>

theorem failure_of_fire_and_forget_is_never_reraised:
  "(let s0 = SqliteMultithread_init False [(''unnamed'', [])];
        a = execute s0 (Statement (BadSql ''x'')) [] None;
        s2 = run (snd a);
        b = execute s2 (Statement (GET_LEN ''unnamed'')) [] None
    in fst a = Returns ()
     \<and> cursor_execute (conn (snd a)) (BadSql ''x'') [] = Inl (OperationalError ''syntax error'')
     \<and> thread s2 = Died (NameError ''sys'')
     \<and> exception s2 = None
     \<and> fst b = Returns ()
     \<and> exception (snd b) = None)"
  by (simp add: SqliteMultithread_init_def execute_def check_raise_error_def reqs_put_def run_def
      step_def sqlitemultithread_globals_def Let_def)

text \<open>
  C2. After a statement raises inside the worker, the worker should go on with the requests
  that follow, and the failing request's result queue should still receive the marker. On the
  code: a \<^verbatim>\<open>select\<close> of a statement the engine rejects waits for ever, its queue receives
  nothing, the thread has ended, and a request submitted afterwards stays in the queue and is
  never executed.
\<close>

theorem worker_ends_at_first_failing_statement:
  "(let s0 = SqliteMultithread_init False [(''unnamed'', [])];
        a = select s0 (Statement (BadSql ''x'')) [];
        b = execute (snd a) (Statement (GET_LEN ''unnamed'')) [] None;
        s3 = run (snd b)
    in fst a = Blocks
     \<and> thread (snd a) = Died (NameError ''sys'')
     \<and> trace (snd a) = [Executed (BadSql ''x'') []]
     \<and> fst b = Returns ()
     \<and> reqs s3 = [(Statement (GET_LEN ''unnamed''), [], None)]
     \<and> trace s3 = [Executed (BadSql ''x'') []])"
  by (simp add: SqliteMultithread_init_def select_def select_start_def new_queue_def drop_queue_def
      execute_def check_raise_error_def reqs_put_def run_def
      step_def sqlitemultithread_globals_def Let_def)

text \<open>
  C9. On a commit request the worker commits and then delivers the marker, and nothing else,
  to the request's result queue; on a close request it leaves its loop, closes the connection
  and then delivers the marker to the closer's queue. The request stands anywhere in the queue,
  behind the requests \<open>pre\<close> and before the requests \<open>rest\<close>, and the worker gets to it: its
  thread is still running when \<open>pre\<close> is worked off, in the state \<open>w\<close>. There \<open>a\<close> is the address
  of a live result queue holding \<open>q\<close>, and \<open>b\<close> an address no live queue is at (a dead weak
  reference, as a forced close carries). On a commit request the loop commits, appends the
  marker alone to the live queue, changes nothing else, and goes on with \<open>rest\<close>; on a dead or
  absent reference it only commits. On a close request the loop closes the connection, appends
  the marker to the live queue and ends: the thread has finished and \<open>rest\<close> is still queued.
\<close>

theorem commit_and_close_requests:
  assumes reached: "thread (run (s\<lparr>reqs := pre\<rparr>)) = Running"
    and live: "queues (run (s\<lparr>reqs := pre\<rparr>)) a = Some q"
    and dead: "queues (run (s\<lparr>reqs := pre\<rparr>)) b = None"
  shows
   "(let w = run (s\<lparr>reqs := pre\<rparr>) in
       run (s\<lparr>reqs := pre @ (REQUEST_COMMIT, arg, Some a) # rest\<rparr>) =
         run (w\<lparr>reqs := rest, queues := (queues w)(a \<mapsto> q @ [RESPONSE_NO_MORE]),
                trace := trace w @ [Committed, Delivered a RESPONSE_NO_MORE]\<rparr>)
     \<and> run (s\<lparr>reqs := pre @ (REQUEST_COMMIT, arg, None) # rest\<rparr>) =
         run (w\<lparr>reqs := rest, trace := trace w @ [Committed]\<rparr>)
     \<and> run (s\<lparr>reqs := pre @ (REQUEST_COMMIT, arg, Some b) # rest\<rparr>) =
         run (w\<lparr>reqs := rest, trace := trace w @ [Committed]\<rparr>)
     \<and> run (s\<lparr>reqs := pre @ (REQUEST_CLOSE, arg, Some a) # rest\<rparr>) =
         w\<lparr>reqs := rest, thread := Finished, conn_open := False,
           queues := (queues w)(a \<mapsto> q @ [RESPONSE_NO_MORE]),
           trace := trace w @ [Closed, Delivered a RESPONSE_NO_MORE]\<rparr>
     \<and> run (s\<lparr>reqs := pre @ (REQUEST_CLOSE, arg, Some b) # rest\<rparr>) =
         w\<lparr>reqs := rest, thread := Finished, conn_open := False,
           trace := trace w @ [Closed]\<rparr>)"
proof -
  let ?w = "run (s\<lparr>reqs := pre\<rparr>)"
  have commit_live:
    "step (?w\<lparr>reqs := rest\<rparr>) (REQUEST_COMMIT, arg, Some a) =
       ?w\<lparr>reqs := rest, queues := (queues ?w)(a \<mapsto> q @ [RESPONSE_NO_MORE]),
          trace := trace ?w @ [Committed, Delivered a RESPONSE_NO_MORE]\<rparr>"
    using live by (simp add: step_def put_def conn_commit_def)
  have commit_none:
    "step (?w\<lparr>reqs := rest\<rparr>) (REQUEST_COMMIT, arg, None) =
       ?w\<lparr>reqs := rest, trace := trace ?w @ [Committed]\<rparr>"
    by (simp add: step_def put_def conn_commit_def)
  have commit_dead:
    "step (?w\<lparr>reqs := rest\<rparr>) (REQUEST_COMMIT, arg, Some b) =
       ?w\<lparr>reqs := rest, trace := trace ?w @ [Committed]\<rparr>"
    using dead by (simp add: step_def put_def conn_commit_def)
  have close_live:
    "step (?w\<lparr>reqs := rest\<rparr>) (REQUEST_CLOSE, arg, Some a) =
       ?w\<lparr>reqs := rest, thread := Finished, conn_open := False,
          queues := (queues ?w)(a \<mapsto> q @ [RESPONSE_NO_MORE]),
          trace := trace ?w @ [Closed, Delivered a RESPONSE_NO_MORE]\<rparr>"
    using live by (simp add: step_def put_def)
  have close_dead:
    "step (?w\<lparr>reqs := rest\<rparr>) (REQUEST_CLOSE, arg, Some b) =
       ?w\<lparr>reqs := rest, thread := Finished, conn_open := False,
          trace := trace ?w @ [Closed]\<rparr>"
    using dead by (simp add: step_def put_def)
  show ?thesis
    unfolding Let_def run_reaches [OF reached] commit_live commit_none commit_dead
      close_live close_dead
    using reached by simp
qed

theorem commit_and_close_requests_witness:
  "(let s = (SqliteMultithread_init False [(''unnamed'', [])])\<lparr>queues := [0 \<mapsto> []]\<rparr>;
        pre = [(Statement (GET_LEN ''unnamed''), [], None)];
        rest = [(Statement (GET_LEN ''unnamed''), [], None)];
        c = run (s\<lparr>reqs := pre @ (REQUEST_COMMIT, [], Some 0) # rest\<rparr>);
        d = run (s\<lparr>reqs := pre @ (REQUEST_CLOSE, [], Some 0) # rest\<rparr>)
    in thread (run (s\<lparr>reqs := pre\<rparr>)) = Running
     \<and> queues (run (s\<lparr>reqs := pre\<rparr>)) 0 = Some []
     \<and> queues (run (s\<lparr>reqs := pre\<rparr>)) 1 = None
     \<and> trace c = [Executed (GET_LEN ''unnamed'') [], Committed, Delivered 0 RESPONSE_NO_MORE,
                   Executed (GET_LEN ''unnamed'') []]
     \<and> queues c 0 = Some [RESPONSE_NO_MORE] \<and> thread c = Running \<and> reqs c = []
     \<and> trace d = [Executed (GET_LEN ''unnamed'') [], Closed, Delivered 0 RESPONSE_NO_MORE]
     \<and> queues d 0 = Some [RESPONSE_NO_MORE] \<and> thread d = Finished \<and> conn_open d = False
     \<and> reqs d = rest)"
proof -
  let ?s = "(SqliteMultithread_init False [(''unnamed'', [])])\<lparr>queues := [0 \<mapsto> []]\<rparr>"
  let ?g = "(Statement (GET_LEN ''unnamed''), [], None) :: request"
  let ?e = "Executed (GET_LEN ''unnamed'') []"
  have w: "run (?s\<lparr>reqs := [?g]\<rparr>) = ?s\<lparr>trace := [?e]\<rparr>"
    by (simp add: SqliteMultithread_init_def run_def step_def respond_def query_def
        lookup_table_def Let_def)
  have reached: "thread (run (?s\<lparr>reqs := [?g]\<rparr>)) = Running"
    and live: "queues (run (?s\<lparr>reqs := [?g]\<rparr>)) 0 = Some []"
    and dead: "queues (run (?s\<lparr>reqs := [?g]\<rparr>)) 1 = None"
    unfolding w by (simp_all add: SqliteMultithread_init_def)
  note all = commit_and_close_requests
    [OF reached live dead, where arg = "[]" and rest = "[?g]", unfolded Let_def w]
  have c: "run (?s\<lparr>reqs := [?g] @ (REQUEST_COMMIT, [], Some 0) # [?g]\<rparr>) =
           ?s\<lparr>queues := [0 \<mapsto> [RESPONSE_NO_MORE]],
              trace := [?e, Committed, Delivered 0 RESPONSE_NO_MORE, ?e]\<rparr>"
    unfolding all [THEN conjunct1]
    by (simp add: SqliteMultithread_init_def run_def step_def respond_def query_def
        lookup_table_def Let_def)
  have d: "run (?s\<lparr>reqs := [?g] @ (REQUEST_CLOSE, [], Some 0) # [?g]\<rparr>) =
           ?s\<lparr>reqs := [?g], thread := Finished, conn_open := False,
              queues := [0 \<mapsto> [RESPONSE_NO_MORE]],
              trace := [?e, Closed, Delivered 0 RESPONSE_NO_MORE]\<rparr>"
    unfolding all [THEN conjunct2, THEN conjunct2, THEN conjunct2, THEN conjunct1]
    by (simp add: SqliteMultithread_init_def)
  show ?thesis
    unfolding Let_def c d w by (simp add: SqliteMultithread_init_def)
qed

section \<open>The claims about construction\<close>

text \<open>
  C3. A flag outside \<^verbatim>\<open>'c'\<close>, \<^verbatim>\<open>'r'\<close>, \<^verbatim>\<open>'w'\<close>, \<^verbatim>\<open>'n'\<close> should raise the error for an
  unrecognized flag, and one of the four should pass the check. On the code: the check reads
  \<^verbatim>\<open>BaseSqlite.VALID_FLAGS\<close>, and \<^verbatim>\<open>BaseSqlite\<close> is bound nowhere (the class that holds
  \<^verbatim>\<open>VALID_FLAGS\<close> is \<^verbatim>\<open>SqliteDb\<close>), so every call of the constructor, whatever the flag, ends
  with \<open>NameError\<close> at that line.
\<close>

theorem constructor_raises_NameError_for_every_flag:
  "fst (SqliteDict_init fs tmp fname tname flg ac enc dec enck deck) =
     Raises (NameError ''BaseSqlite'')"
  by (simp add: SqliteDict_init_def sqlitedb_globals_def Let_def)

text \<open>
  The lines of the constructor for read-only mode, had they been reached: a file without the
  table is refused with the \<open>RuntimeError\<close> for a new table in read-only mode.
\<close>

lemma open_table_read_only_without_table:
  "flag h = ''r'' \<Longrightarrow> files fs (filename h) = Some db \<Longrightarrow> tablename h \<notin> set (map fst db) \<Longrightarrow>
   fst (open_table h fs) =
     Raises (RuntimeError ''Refusing to create a new table in read-only DB mode'')"
  by (simp add: open_table_def get_tablenames_def and_then_def)

text \<open>The guards of the methods that write: in read-only mode each raises at once.\<close>

lemma read_only_methods_refuse:
  "flag h = ''r'' \<Longrightarrow>
     SqliteDict_setitem h k v =
       (Raises (RuntimeError ''Refusing to write to read-only SqliteDict''), h)
   \<and> SqliteDict_delitem h k =
       (Raises (RuntimeError ''Refusing to delete from read-only SqliteDict''), h)
   \<and> SqliteDict_update h items kwds =
       (Raises (RuntimeError ''Refusing to update read-only SqliteDict''), h)
   \<and> SqliteDict_clear h =
       (Raises (RuntimeError ''Refusing to clear read-only SqliteDict''), h)
   \<and> SqliteDb_terminate (h, fs) =
       (Raises (RuntimeError ''Refusing to terminate read-only SqliteDict''), h, fs)"
  by (simp add: SqliteDict_setitem_def SqliteDict_delitem_def SqliteDict_update_def
      SqliteDict_clear_def SqliteDb_terminate_def)

text \<open>
  C7. In read-only mode, construction on a file without the table should raise the error for
  a new table in read-only mode, and on a file with the table it should give a mapping whose
  writing methods refuse. On the code: with the file \<^verbatim>\<open>some.db\<close> holding the one table
  \<^verbatim>\<open>other\<close>, the constructor with flag \<^verbatim>\<open>'r'\<close> ends with \<open>NameError\<close> at the flag check, for
  the missing table \<^verbatim>\<open>unnamed\<close> and for the table \<^verbatim>\<open>other\<close> alike: the lines that look the
  table up are never reached, and no read-only mapping comes into being.
\<close>

theorem read_only_construction_raises_NameError:
  "(let fs = \<lparr>files = [''some.db'' \<mapsto> [(''other'', [])]], dirs = []\<rparr>
    in SqliteDict_init fs ''tmp'' (Some ''some.db'') ''unnamed'' ''r'' False enc dec enck deck =
         (Raises (NameError ''BaseSqlite''), fs)
     \<and> SqliteDict_init fs ''tmp'' (Some ''some.db'') ''other'' ''r'' False enc dec enck deck =
         (Raises (NameError ''BaseSqlite''), fs))"
  by (simp add: SqliteDict_init_def sqlitedb_globals_def Let_def)

section \<open>Calls into a serving worker\<close>

text \<open>
  What the only caller of a serving worker gets from \<^verbatim>\<open>execute\<close>, \<^verbatim>\<open>select\<close>,
  \<^verbatim>\<open>select_one\<close>, \<^verbatim>\<open>commit\<close> and \<^verbatim>\<open>close\<close>, and the state the worker is left in. Requests
  without a result queue leave the caller's queues, the next address and the log of submitted
  requests alone.
\<close>

lemma step_without_queue:
  "step s (rq, arg, None) =
     (case rq of
        REQUEST_CLOSE \<Rightarrow> s\<lparr>thread := Died AssertionError\<rparr>
      | REQUEST_COMMIT \<Rightarrow> s\<lparr>trace := trace s @ [Committed]\<rparr>
      | Statement q \<Rightarrow>
          (case cursor_execute (conn s) q arg of
             Inr (rows, db') \<Rightarrow>
               s\<lparr>conn := db',
                 trace := trace s @ Executed q arg # (if autocommit s then [Committed] else [])\<rparr>
           | Inl e \<Rightarrow> s\<lparr>thread := Died (NameError ''sys''),
                         trace := trace s @ [Executed q arg]\<rparr>))"
  by (simp add: step_def put_def respond_def conn_commit_def Let_def
      sqlitemultithread_globals_def split: req.splits sum.splits prod.splits)

lemma step_caller_side:
  "step (s\<lparr>queues := Q, next_addr := n, submitted := sb, reqs := rs\<rparr>) (rq, arg, None) =
   (step (s\<lparr>reqs := rs\<rparr>) (rq, arg, None))\<lparr>queues := Q, next_addr := n, submitted := sb\<rparr>"
  by (simp add: step_without_queue split: req.splits sum.splits prod.splits)

lemma run_reqs_caller_side:
  "list_all (\<lambda>r. snd (snd r) = None) rs \<Longrightarrow>
   run_reqs (s\<lparr>queues := Q, next_addr := n, submitted := sb\<rparr>) rs =
   (run_reqs s rs)\<lparr>queues := Q, next_addr := n, submitted := sb\<rparr>"
proof (induction rs arbitrary: s)
  case Nil
  show ?case by simp
next
  case (Cons r rs)
  obtain rq arg where r: "r = (rq, arg, None)"
    using Cons.prems by (cases r) auto
  let ?t = "step (s\<lparr>reqs := rs\<rparr>) r"
  have st: "step (s\<lparr>queues := Q, next_addr := n, submitted := sb, reqs := rs\<rparr>) r =
            ?t\<lparr>queues := Q, next_addr := n, submitted := sb\<rparr>"
    using step_caller_side [where s = s and rs = rs and Q = Q and n = n and sb = sb and rq = rq and arg = arg] r by simp
  have ih: "run_reqs (?t\<lparr>queues := Q, next_addr := n, submitted := sb\<rparr>) rs =
            (run_reqs ?t rs)\<lparr>queues := Q, next_addr := n, submitted := sb\<rparr>"
    using Cons.prems by (intro Cons.IH) simp
  show ?case
    by (simp add: Let_def st ih)
qed

lemma step_frame:
  "autocommit (step s r) = autocommit s"
  "next_addr (step s r) = next_addr s"
  "submitted (step s r) = submitted s"
  by (cases r; simp add: step_def respond_def conn_commit_def Let_def
      split: req.splits sum.splits prod.splits)+

lemma run_reqs_frame:
  "autocommit (run_reqs s rs) = autocommit s"
  "next_addr (run_reqs s rs) = next_addr s"
  "submitted (run_reqs s rs) = submitted s"
  by (induction s rs rule: run_reqs.induct; simp add: Let_def step_frame)+

lemma run_frame:
  "autocommit (run s) = autocommit s"
  "next_addr (run s) = next_addr s"
  "submitted (run s) = submitted s"
  by (simp_all add: run_def run_reqs_frame)

lemma run_reqs_queues:
  "list_all (\<lambda>r. snd (snd r) = None) rs \<Longrightarrow> queues (run_reqs s rs) = queues s"
proof (induction rs arbitrary: s)
  case Nil
  show ?case by simp
next
  case (Cons r rs)
  obtain rq arg where r: "r = (rq, arg, None)"
    using Cons.prems by (cases r) auto
  have "queues (step (s\<lparr>reqs := rs\<rparr>) r) = queues s"
    unfolding r by (simp add: step_without_queue split: req.splits sum.splits prod.splits)
  moreover have "queues (run_reqs (step (s\<lparr>reqs := rs\<rparr>) r) rs) =
                 queues (step (s\<lparr>reqs := rs\<rparr>) r)"
    using Cons.prems by (intro Cons.IH) simp
  ultimately show ?case by (simp add: Let_def)
qed

lemma run_idle: "thread s = Running \<Longrightarrow> reqs s = [] \<Longrightarrow> run s = s"
  by (simp add: run_def)

lemma serving_facts:
  assumes "serving s"
  shows "thread s = Running" "thread (run s) = Running" "reqs (run s) = []"
    "exception s = None" "queues (run s) = queues s"
    "list_all (\<lambda>r. snd (snd r) = None) (reqs s)"
proof -
  from assms show a: "thread (run s) = Running" and "exception s = None"
    and sl: "list_all (\<lambda>r. snd (snd r) = None) (reqs s)"
    by (simp_all add: serving_def)
  from a show st: "thread s = Running" by (rule run_Running_start)
  from a st show "reqs (run s) = []"
    by (simp add: run_def run_reqs_Running_reqs)
  from st sl show "queues (run s) = queues s"
    by (simp add: run_def run_reqs_queues)
qed

lemma run_after_call:
  assumes "serving s"
  shows "run (s\<lparr>queues := Q, next_addr := n, reqs := reqs s @ [r], submitted := sb\<rparr>) =
         step ((run s)\<lparr>queues := Q, next_addr := n, submitted := sb\<rparr>) r"
proof -
  note f = serving_facts [OF assms]
  let ?S = "s\<lparr>queues := Q, next_addr := n, submitted := sb\<rparr>"
  let ?W = "(run s)\<lparr>queues := Q, next_addr := n, submitted := sb\<rparr>"
  have pre: "run (?S\<lparr>reqs := reqs s\<rparr>) = ?W"
    using f(1) f(6) by (simp add: run_def run_reqs_ignores_reqs run_reqs_caller_side)
  then have reached: "thread (run (?S\<lparr>reqs := reqs s\<rparr>)) = Running"
    using f(2) by simp
  have W: "?W\<lparr>reqs := []\<rparr> = ?W"
    using f(3) by simp
  have "run (?S\<lparr>reqs := reqs s @ r # []\<rparr>) =
        (let w = step (?W\<lparr>reqs := []\<rparr>) r in if thread w = Running then run w else w)"
    using run_reaches [OF reached, where r = r and rest = "[]"] unfolding pre .
  also have "\<dots> = step ?W r"
    unfolding W Let_def using f(3) by (simp add: run_idle)
  finally have main: "run (?S\<lparr>reqs := reqs s @ r # []\<rparr>) = step ?W r" .
  have e: "s\<lparr>queues := Q, next_addr := n, reqs := reqs s @ [r], submitted := sb\<rparr> =
           ?S\<lparr>reqs := reqs s @ r # []\<rparr>"
    by simp
  show ?thesis unfolding e by (rule main)
qed


lemma put_rows_live:
  "queues s a = Some q \<Longrightarrow>
   queues (put_rows s (Some a) rows) a = Some (q @ map Row rows)"
proof (induction rows arbitrary: s q)
  case Nil
  then show ?case by simp
next
  case (Cons r rows)
  have "queues (snd (put s (Some a) (Row r))) a = Some (q @ [Row r])"
    using Cons.prems by (simp add: put_def)
  from Cons.IH [OF this] Cons.prems show ?case
    by (simp add: put_def)
qed

lemma respond_live:
  "queues s a = Some q \<Longrightarrow>
   queues (respond s (Some a) rows) a = Some (q @ map Row rows @ [RESPONSE_NO_MORE])"
  using put_rows_live [of s a q rows]
  by (simp add: respond_def put_def conn_commit_def Let_def)

lemma respond_frame:
  "thread (respond s ref rows) = thread s"
  "conn (respond s ref rows) = conn s"
  "conn_open (respond s ref rows) = conn_open s"
  by (simp_all add: respond_def conn_commit_def Let_def)

text \<open>A statement the engine accepts, taken by a running worker, with a live queue.\<close>

lemma step_statement:
  assumes "cursor_execute (conn w) q arg = Inr (rows, db')"
  shows "thread (step w (Statement q, arg, ref)) = thread w"
    and "conn (step w (Statement q, arg, ref)) = db'"
    and "queues w a = Some [] \<Longrightarrow>
         queues (step w (Statement q, arg, Some a)) a = Some (map Row rows @ [RESPONSE_NO_MORE])"
  using assms respond_live [of "w\<lparr>trace := trace w @ [Executed q arg], conn := db'\<rparr>" a "[]" rows]
  by (simp_all add: step_def Let_def respond_frame)



text \<open>The start of \<open>select\<close> by the only caller of a serving worker.\<close>

lemma select_start_serving:
  assumes "serving s"
  shows "select_start s rq arg =
         (let a = next_addr s; r = (rq, arg, Some a);
              w = step ((run s)\<lparr>queues := (queues s)(a \<mapsto> []), next_addr := Suc a,
                                submitted := submitted s @ [r]\<rparr>) r
          in (Returns (a, case queues w a of None \<Rightarrow> [] | Some q \<Rightarrow> q), w))"
  using serving_facts(4) [OF assms]
  by (simp add: select_start_def new_queue_def execute_def check_raise_error_def reqs_put_def
      Let_def run_after_call [OF assms])


lemma serving_idle:
  "thread s = Running \<Longrightarrow> exception s = None \<Longrightarrow> reqs s = [] \<Longrightarrow> serving s \<and> db_of s = conn s"
  by (simp add: serving_def db_of_def run_idle)

lemma select_loop_all:
  "exception s = None \<Longrightarrow>
   select_loop s (map Row rows @ [RESPONSE_NO_MORE]) = (Returns rows, s)"
  by (induction rows) (simp_all add: check_raise_error_def)

text \<open>The state a serving worker is in when it takes the caller's request.\<close>

lemma taking_state:
  assumes "serving s"
  shows "thread ((run s)\<lparr>queues := (queues s)(next_addr s \<mapsto> []),
                         next_addr := Suc (next_addr s), submitted := sb\<rparr>) = Running"
    and "exception ((run s)\<lparr>queues := (queues s)(next_addr s \<mapsto> []),
                         next_addr := Suc (next_addr s), submitted := sb\<rparr>) = None"
    and "reqs ((run s)\<lparr>queues := (queues s)(next_addr s \<mapsto> []),
                         next_addr := Suc (next_addr s), submitted := sb\<rparr>) = []"
    and "conn ((run s)\<lparr>queues := (queues s)(next_addr s \<mapsto> []),
                         next_addr := Suc (next_addr s), submitted := sb\<rparr>) = db_of s"
    and "autocommit ((run s)\<lparr>queues := (queues s)(next_addr s \<mapsto> []),
                         next_addr := Suc (next_addr s), submitted := sb\<rparr>) = autocommit s"
    and "queues ((run s)\<lparr>queues := (queues s)(next_addr s \<mapsto> []),
                         next_addr := Suc (next_addr s), submitted := sb\<rparr>) (next_addr s) = Some []"
  using serving_facts [OF assms(1)]
  by (simp_all add: db_of_def run_keeps_exception run_frame)


lemma select_statement:
  assumes s: "serving s" and ok: "cursor_execute (db_of s) q arg = Inr (rows, db')"
  shows "fst (select s (Statement q) arg) = Returns rows"
    and "thread (snd (select s (Statement q) arg)) = Running"
    and "exception (snd (select s (Statement q) arg)) = None"
    and "reqs (snd (select s (Statement q) arg)) = []"
    and "conn (snd (select s (Statement q) arg)) = db'"
    and "autocommit (snd (select s (Statement q) arg)) = autocommit s"
    and "submitted (snd (select s (Statement q) arg)) =
           submitted s @ [(Statement q, arg, Some (next_addr s))]"
proof -
  let ?a = "next_addr s"
  let ?r = "(Statement q, arg, Some ?a)"
  let ?W = "(run s)\<lparr>queues := (queues s)(?a \<mapsto> []), next_addr := Suc ?a,
                     submitted := submitted s @ [?r]\<rparr>"
  let ?w = "step ?W ?r"
  note W = taking_state [OF s, where sb = "submitted s @ [?r]"]
  from ok W(4) have ok': "cursor_execute (conn ?W) q arg = Inr (rows, db')" by simp
  have w: "thread ?w = Running" "conn ?w = db'" "exception ?w = None" "reqs ?w = []"
    "autocommit ?w = autocommit s" "submitted ?w = submitted s @ [?r]"
    "queues ?w ?a = Some (map Row rows @ [RESPONSE_NO_MORE])"
    using step_statement [OF ok'] W
    by (simp_all add: step_keeps_exception step_frame)
  have ss: "select_start s (Statement q) arg =
            (Returns (?a, map Row rows @ [RESPONSE_NO_MORE]), ?w)"
    using w(7) by (simp add: select_start_serving [OF s] Let_def)
  have so: "select s (Statement q) arg = (Returns rows, drop_queue ?w ?a)"
    using w(3) by (simp add: select_def ss select_loop_all)
  show "fst (select s (Statement q) arg) = Returns rows"
    and "thread (snd (select s (Statement q) arg)) = Running"
    and "exception (snd (select s (Statement q) arg)) = None"
    and "reqs (snd (select s (Statement q) arg)) = []"
    and "conn (snd (select s (Statement q) arg)) = db'"
    and "autocommit (snd (select s (Statement q) arg)) = autocommit s"
    and "submitted (snd (select s (Statement q) arg)) =
           submitted s @ [(Statement q, arg, Some (next_addr s))]"
    unfolding so using w by (simp_all add: drop_queue_def)
qed




section \<open>The methods on a usable mapping\<close>

lemma lookup_store_table [simp]: "lookup_table (store_table db tn t) tn = Some t"
  by (simp add: lookup_table_def store_table_def update_conv')

lemma usableD:
  assumes "usable h"
  obtains s where "self_conn h = Some s" "serving s"
    "lookup_table (db_of s) (tablename h) = Some (stored h)"
  using assms by (auto simp: usable_def stored_def split: option.splits)

lemma usable_idle:
  assumes "self_conn h = Some s" "thread s = Running" "exception s = None" "reqs s = []"
    "lookup_table (conn s) (tablename h) = Some t"
  shows "usable h" "stored h = t"
  using assms serving_idle [of s] by (simp_all add: usable_def stored_def)



lemma on_conn_Some:
  "self_conn h = Some s \<Longrightarrow> on_conn h f = (fst (f s), h\<lparr>self_conn := Some (snd (f s))\<rparr>)"
  by (simp add: on_conn_def split: prod.splits)





lemma select_usable:
  assumes u: "usable h"
    and ok: "\<And>db. lookup_table db (tablename h) = Some (stored h) \<Longrightarrow>
               cursor_execute db q arg = Inr (rows, db)"
  shows "on_conn h (\<lambda>s. select s (Statement q) arg) =
           (Returns rows, snd (on_conn h (\<lambda>s. select s (Statement q) arg)))"
    and "usable (snd (on_conn h (\<lambda>s. select s (Statement q) arg)))"
    and "stored (snd (on_conn h (\<lambda>s. select s (Statement q) arg))) = stored h"
    and "(snd (on_conn h (\<lambda>s. select s (Statement q) arg)))\<lparr>self_conn := None\<rparr> =
           h\<lparr>self_conn := None\<rparr>"
proof -
  from u obtain s where s: "self_conn h = Some s" "serving s"
    "lookup_table (db_of s) (tablename h) = Some (stored h)"
    by (rule usableD)
  let ?c = "select s (Statement q) arg"
  note c = select_statement [OF s(2) ok [OF s(3)]]
  have oc: "on_conn h (\<lambda>s. select s (Statement q) arg) =
            (Returns rows, h\<lparr>self_conn := Some (snd ?c)\<rparr>)"
    using s(1) c(1) by (simp add: on_conn_Some)
  have u1: "usable (h\<lparr>self_conn := Some (snd ?c)\<rparr>)"
    "stored (h\<lparr>self_conn := Some (snd ?c)\<rparr>) = stored h"
    using usable_idle [of "h\<lparr>self_conn := Some (snd ?c)\<rparr>" "snd ?c" "stored h"] c s(3)
    by simp_all
  show "on_conn h (\<lambda>s. select s (Statement q) arg) =
           (Returns rows, snd (on_conn h (\<lambda>s. select s (Statement q) arg)))"
    and "usable (snd (on_conn h (\<lambda>s. select s (Statement q) arg)))"
    and "stored (snd (on_conn h (\<lambda>s. select s (Statement q) arg))) = stored h"
    and "(snd (on_conn h (\<lambda>s. select s (Statement q) arg)))\<lparr>self_conn := None\<rparr> =
           h\<lparr>self_conn := None\<rparr>"
    unfolding oc using u1 by simp_all
qed










section \<open>The claims about the mapping\<close>








end
